theory Spec2Isabelle
  imports Complex_Main "HOL-Library.Multiset" "HOL-Library.Sublist"
    "HOL-Library.Char_ord" "HOL-Library.List_Lexorder"
begin

section \<open>Values of the notebook\<close>

text \<open>
  The analysis lives in the notebook \<^verbatim>\<open>scripts/03_ls_daughters.ipynb\<close>. Its frame
  \<^verbatim>\<open>df\<close> is built from the JSON files of six Lok Sabhas; the two count columns
  \<^verbatim>\<open>numberOfSons\<close> and \<^verbatim>\<open>numberOfDaughters\<close> are float64 columns in which a
  JSON null is NaN. A count cell is modelled as \<open>nat option\<close>: \<open>None\<close> is NaN,
  \<open>Some n\<close> the count \<open>n\<close> held as a float.

  Counts and their sums are small integers, which float64 holds exactly. A quotient or a
  mean is taken as the exact real number: the rounding of the last bit is not modelled.
  What float64 does beyond the reals is modelled: division by zero yields infinity or NaN
  in numpy and raises in plain Python, and NaN propagates or is skipped as the called
  function does.
\<close>

datatype py_error = ZeroDivisionError | ValueError | TypeError

datatype float64 = Fin real | PosInf | NaN

record member =
  mpsno :: nat
  ls :: string
  partySname :: "string option"
  numberOfSons :: "nat option"
  numberOfDaughters :: "nat option"

type_synonym frame = "member list"

text \<open>
  The dtype of a count column. pandas gives a column float64 when it holds a number, and
  object when every value of it is null (the cells are then \<^verbatim>\<open>None\<close>). A frame cut
  out of the raw frame (\<^verbatim>\<open>df_small\<close>, \<^verbatim>\<open>unique_df\<close>, a sample) keeps the dtypes of
  the raw frame, so the dtypes go with the frame as a value of their own.
\<close>

datatype dtype = Float64 | Object

record dtypes =
  sons_dtype :: dtype
  daughters_dtype :: dtype

definition column_dtype :: "(member \<Rightarrow> nat option) \<Rightarrow> frame \<Rightarrow> dtype" where
  "column_dtype col df = (if list_all (\<lambda>r. col r = None) df then Object else Float64)"

definition dtypes_of :: "frame \<Rightarrow> dtypes" where
  "dtypes_of df =
     \<lparr>sons_dtype = column_dtype numberOfSons df,
      daughters_dtype = column_dtype numberOfDaughters df\<rparr>"

text \<open>\<^verbatim>\<open>Series.isna()\<close> on a count cell.\<close>

definition isna :: "nat option \<Rightarrow> bool" where
  "isna c = (case c of None \<Rightarrow> True | Some _ \<Rightarrow> False)"

text \<open>Float addition of two count cells: NaN plus anything is NaN.\<close>

definition nan_add :: "nat option \<Rightarrow> nat option \<Rightarrow> nat option" where
  "nan_add a b = (case a of None \<Rightarrow> None | Some x \<Rightarrow> (case b of None \<Rightarrow> None | Some y \<Rightarrow> Some (x + y)))"

text \<open>
  Python's builtin \<^verbatim>\<open>sum\<close> over a column: it starts from 0 and adds every cell. In
  a float64 column the cells are floats, and one NaN makes the result NaN. In an object
  column a null cell is \<^verbatim>\<open>None\<close>, and adding it raises \<^verbatim>\<open>TypeError\<close>.
\<close>

definition float_sum :: "nat option list \<Rightarrow> nat option" where
  "float_sum cs = foldl nan_add (Some 0) cs"

definition builtin_sum :: "dtype \<Rightarrow> nat option list \<Rightarrow> py_error + nat option" where
  "builtin_sum dt cs =
     (case dt of
        Float64 \<Rightarrow> Inr (float_sum cs)
      | Object \<Rightarrow> if None \<in> set cs then Inl TypeError else Inr (float_sum cs))"

text \<open>
  \<^verbatim>\<open>np.sum\<close> of a pandas column hands over to \<^verbatim>\<open>Series.sum\<close>, which skips
  nulls. The sum of a float64 column is a numpy float (0.0 when the column has no value);
  the sum of an object column is a Python number (the int 0 when every cell is null).
\<close>

fun np_sum :: "nat option list \<Rightarrow> nat" where
  "np_sum [] = 0"
| "np_sum (None # cs) = np_sum cs"
| "np_sum (Some n # cs) = n + np_sum cs"

text \<open>
  Python's \<^verbatim>\<open>/\<close> on two Python floats (iterating a float column yields Python floats,
  so builtin \<^verbatim>\<open>sum\<close> returns one): a zero divisor raises \<^verbatim>\<open>ZeroDivisionError\<close>,
  whatever the dividend; otherwise NaN propagates.
\<close>

definition py_truediv :: "nat option \<Rightarrow> nat option \<Rightarrow> py_error + float64" where
  "py_truediv a b =
     (case b of
        None \<Rightarrow> Inr NaN
      | Some d \<Rightarrow>
          if d = 0 then Inl ZeroDivisionError
          else (case a of None \<Rightarrow> Inr NaN | Some n \<Rightarrow> Inr (Fin (real n / real d))))"

text \<open>
  numpy's \<^verbatim>\<open>/\<close> on two float64 scalars that hold non-negative sums: it never raises;
  a zero divisor gives \<^verbatim>\<open>inf\<close>, or \<^verbatim>\<open>nan\<close> for 0/0, with a RuntimeWarning only.
\<close>

definition np_true_divide :: "nat \<Rightarrow> nat \<Rightarrow> float64" where
  "np_true_divide n d =
     (if d = 0 then (if n = 0 then NaN else PosInf) else Fin (real n / real d))"

text \<open>
  \<^verbatim>\<open>numerator / denominator\<close> on the two sums of \<^verbatim>\<open>np.sum\<close>. When both columns
  are object both sums are Python numbers and the division is Python's, which raises on a
  zero divisor; as soon as one sum is a numpy float the division is numpy's.
\<close>

definition scalar_divide :: "dtypes \<Rightarrow> nat \<Rightarrow> nat \<Rightarrow> py_error + float64" where
  "scalar_divide dts n d =
     (if sons_dtype dts = Object \<and> daughters_dtype dts = Object
      then py_truediv (Some n) (Some d)
      else Inr (np_true_divide n d))"

text \<open>
  One cell of \<^verbatim>\<open>adf['numberOfSons']/adf['numberOfDaughters']\<close>. Between two float64
  columns the division is numpy's; when a column is object numpy divides the cells as
  Python objects, and a zero divisor raises.
\<close>

definition column_divide :: "dtypes \<Rightarrow> nat \<Rightarrow> nat \<Rightarrow> py_error + float64" where
  "column_divide dts n d =
     (if sons_dtype dts = Object \<or> daughters_dtype dts = Object
      then py_truediv (Some n) (Some d)
      else Inr (np_true_divide n d))"

text \<open>The results of a list of steps, or the first exception raised.\<close>

fun collect :: "(py_error + 'a) list \<Rightarrow> py_error + 'a list" where
  "collect [] = Inr []"
| "collect (x # xs) =
     (case x of
        Inl e \<Rightarrow> Inl e
      | Inr v \<Rightarrow> (case collect xs of Inl e \<Rightarrow> Inl e | Inr vs \<Rightarrow> Inr (v # vs)))"

section \<open>Filtering and deduplication (cells 4 and 7)\<close>

text \<open>
  \<^verbatim>\<open>df_small = df.loc[~ (df['numberOfSons'].isna() & df['numberOfDaughters'].isna())]\<close>
\<close>

definition df_small :: "frame \<Rightarrow> frame" where
  "df_small df = filter (\<lambda>r. \<not> (isna (numberOfSons r) \<and> isna (numberOfDaughters r))) df"



text \<open>
  \<^verbatim>\<open>drop_duplicates(subset=key, keep='last')\<close>: a row is dropped when a later row has
  the same key; the rows kept stay where they were.
\<close>

fun drop_duplicates_last :: "('r \<Rightarrow> 'k) \<Rightarrow> 'r list \<Rightarrow> 'r list" where
  "drop_duplicates_last key [] = []"
| "drop_duplicates_last key (r # rs) =
     (if key r \<in> set (map key rs) then drop_duplicates_last key rs
      else r # drop_duplicates_last key rs)"

text \<open>\<^verbatim>\<open>unique_df = df_small.drop_duplicates(subset='mpsno', keep='last')\<close>\<close>

definition unique_df :: "frame \<Rightarrow> frame" where
  "unique_df df = drop_duplicates_last mpsno (df_small df)"

text \<open>
  The keys of a sequence in the order in which each first appears: the order the
  specification asks of the deduplicated output.
\<close>

fun first_appearance :: "'k list \<Rightarrow> 'k list" where
  "first_appearance [] = []"
| "first_appearance (k # ks) = k # filter (\<lambda>x. x \<noteq> k) (first_appearance ks)"

section \<open>Aggregate sex ratio (cells 8 to 10)\<close>

text \<open>
  The aggregate ratio of cells 8 and 9, with Python's builtin \<^verbatim>\<open>sum\<close> and \<^verbatim>\<open>/\<close>:
  \<^verbatim>\<open>sum(df_small['numberOfSons'])/sum(df_small['numberOfDaughters'])\<close>
\<close>

definition agg_sex_ratio :: "dtypes \<Rightarrow> frame \<Rightarrow> py_error + float64" where
  "agg_sex_ratio dts data =
     (case builtin_sum (sons_dtype dts) (map numberOfSons data) of
        Inl e \<Rightarrow> Inl e
      | Inr a \<Rightarrow>
          (case builtin_sum (daughters_dtype dts) (map numberOfDaughters data) of
             Inl e \<Rightarrow> Inl e
           | Inr b \<Rightarrow> py_truediv a b))"

text \<open>
  \<^verbatim>\<open>
  def calculate_ratio(data):
      numerator = np.sum(data['numberOfSons'])
      denominator = np.sum(data['numberOfDaughters'])
      return numerator / denominator
  \<close>
\<close>

definition calculate_ratio :: "dtypes \<Rightarrow> frame \<Rightarrow> py_error + float64" where
  "calculate_ratio dts data =
     (let numerator = np_sum (map numberOfSons data);
          denominator = np_sum (map numberOfDaughters data)
      in scalar_divide dts numerator denominator)"

text \<open>
  The ratio as the specification words it: the records with both counts present, the sum
  of their sons over the sum of their daughters.
\<close>

definition both_present :: "member \<Rightarrow> bool" where
  "both_present r = (\<not> isna (numberOfSons r) \<and> \<not> isna (numberOfDaughters r))"

definition count_of :: "nat option \<Rightarrow> nat" where
  "count_of c = (case c of None \<Rightarrow> 0 | Some n \<Rightarrow> n)"

text \<open>
  The sum of one count over the records that have it, whether a record of a frame lacks
  a count, and the dtypes of a frame whose two count columns both hold a number.
\<close>

definition column_total :: "(member \<Rightarrow> nat option) \<Rightarrow> frame \<Rightarrow> nat" where
  "column_total col data =
     sum_list (map (\<lambda>r. count_of (col r)) (filter (\<lambda>r. \<not> isna (col r)) data))"

definition lacks :: "(member \<Rightarrow> nat option) \<Rightarrow> frame \<Rightarrow> bool" where
  "lacks col data = (None \<in> set (map col data))"

definition float_columns :: dtypes where
  "float_columns = \<lparr>sons_dtype = Float64, daughters_dtype = Float64\<rparr>"

definition sons_total :: "frame \<Rightarrow> nat" where
  "sons_total data = sum_list (map (\<lambda>r. count_of (numberOfSons r)) (filter both_present data))"

definition daughters_total :: "frame \<Rightarrow> nat" where
  "daughters_total data =
     sum_list (map (\<lambda>r. count_of (numberOfDaughters r)) (filter both_present data))"

section \<open>Bootstrap standard error (cell 11)\<close>

text \<open>
  The values of a float list when all are finite (\<open>is_fin\<close> and \<open>fin_val\<close> read
  one float). \<^verbatim>\<open>np.std\<close> is the population
  standard deviation \<^verbatim>\<open>sqrt(mean(abs(x - x.mean())**2))\<close>; an \<^verbatim>\<open>inf\<close> or a
  \<^verbatim>\<open>nan\<close> among the values makes it \<^verbatim>\<open>nan\<close>, and so does an empty list.
\<close>

fun finite_values :: "float64 list \<Rightarrow> real list option" where
  "finite_values [] = Some []"
| "finite_values (Fin x # xs) =
     (case finite_values xs of None \<Rightarrow> None | Some ys \<Rightarrow> Some (x # ys))"
| "finite_values (PosInf # xs) = None"
| "finite_values (NaN # xs) = None"



definition mean_of :: "real list \<Rightarrow> real" where
  "mean_of xs = sum_list xs / real (length xs)"

definition np_std :: "float64 list \<Rightarrow> float64" where
  "np_std a =
     (case finite_values a of
        None \<Rightarrow> NaN
      | Some xs \<Rightarrow>
          if xs = [] then NaN
          else Fin (sqrt (mean_of (map (\<lambda>x. (x - mean_of xs)\<^sup>2) xs))))"









section \<open>Proportion of daughters and mean number of children (cells 12 and 20)\<close>

text \<open>
  \<^verbatim>\<open>unique_df['total_kids'] = unique_df['numberOfDaughters'] + unique_df['numberOfSons']\<close>
\<close>

definition total_kids :: "member \<Rightarrow> nat option" where
  "total_kids r = nan_add (numberOfDaughters r) (numberOfSons r)"

text \<open>\<^verbatim>\<open>x > 0\<close> on a count cell: a comparison with NaN is False.\<close>

definition gt_zero :: "nat option \<Rightarrow> bool" where
  "gt_zero c = (case c of None \<Rightarrow> False | Some n \<Rightarrow> 0 < n)"

text \<open>\<^verbatim>\<open>df_kids = unique_df[unique_df['total_kids'] > 0]\<close>\<close>

definition df_kids :: "frame \<Rightarrow> frame" where
  "df_kids udf = filter (\<lambda>r. gt_zero (total_kids r)) udf"

text \<open>Division of one count column by another, cell by cell, as numpy divides.\<close>

definition series_div :: "nat option \<Rightarrow> nat option \<Rightarrow> float64" where
  "series_div a b =
     (case a of None \<Rightarrow> NaN
      | Some n \<Rightarrow> (case b of None \<Rightarrow> NaN | Some d \<Rightarrow> np_true_divide n d))"

text \<open>
  \<^verbatim>\<open>df_kids['prop_daughter'] = df_kids['numberOfDaughters']/df_kids['total_kids']\<close>
\<close>

definition prop_daughter :: "member \<Rightarrow> float64" where
  "prop_daughter r = series_div (numberOfDaughters r) (total_kids r)"

text \<open>
  \<^verbatim>\<open>Series.mean()\<close>: NaN is skipped; with no value left the mean is NaN; an
  \<^verbatim>\<open>inf\<close> among the values makes it \<^verbatim>\<open>inf\<close>.
\<close>

definition series_mean :: "float64 list \<Rightarrow> float64" where
  "series_mean xs =
     (let vs = filter (\<lambda>x. x \<noteq> NaN) xs
      in if vs = [] then NaN
         else (case finite_values vs of None \<Rightarrow> PosInf | Some ys \<Rightarrow> Fin (mean_of ys)))"

text \<open>\<^verbatim>\<open>df_kids['prop_daughter'].mean()\<close>, from the deduplicated frame.\<close>

definition prop_daughter_mean :: "frame \<Rightarrow> float64" where
  "prop_daughter_mean udf = series_mean (map prop_daughter (df_kids udf))"

definition to_float :: "nat option \<Rightarrow> float64" where
  "to_float c = (case c of None \<Rightarrow> NaN | Some n \<Rightarrow> Fin (real n))"

text \<open>\<^verbatim>\<open>unique_df['total_kids'].mean()\<close>\<close>

definition total_kids_mean :: "frame \<Rightarrow> float64" where
  "total_kids_mean udf = series_mean (map (\<lambda>r. to_float (total_kids r)) udf)"

text \<open>
  The records the specification counts in the proportion: both counts present and at
  least one child; and the proportion of daughters of such a record.
\<close>

definition has_kids :: "member \<Rightarrow> bool" where
  "has_kids r =
     (case numberOfSons r of None \<Rightarrow> False
      | Some s \<Rightarrow> (case numberOfDaughters r of None \<Rightarrow> False | Some d \<Rightarrow> 0 < s + d))"

definition daughters_share :: "member \<Rightarrow> real" where
  "daughters_share r =
     real (count_of (numberOfDaughters r))
       / real (count_of (numberOfSons r) + count_of (numberOfDaughters r))"

section \<open>Group-by breakdowns (cells 22 and 27)\<close>

text \<open>
  \<^verbatim>\<open>
  adf = df.groupby(key)[['numberOfSons', 'numberOfDaughters']].sum().reset_index()
  adf['sex_ratio'] = adf['numberOfSons']/adf['numberOfDaughters']
  \<close>
  \<^verbatim>\<open>groupby\<close> drops the rows whose key is missing and returns the groups in the order
  of their keys; \<^verbatim>\<open>sum\<close> skips nulls; the division of the two columns raises as
  soon as one of its cells does.
\<close>

record 'k group_row =
  group_key :: 'k
  sons_sum :: nat
  daughters_sum :: nat
  sex_ratio :: float64

definition group_keys :: "('r \<Rightarrow> 'k::linorder option) \<Rightarrow> 'r list \<Rightarrow> 'k list" where
  "group_keys key df = sort (remdups (List.map_filter key df))"

definition group_of :: "('r \<Rightarrow> 'k option) \<Rightarrow> 'r list \<Rightarrow> 'k \<Rightarrow> 'r list" where
  "group_of key df k = filter (\<lambda>r. key r = Some k) df"

definition group_sums ::
  "dtypes \<Rightarrow> (member \<Rightarrow> 'k option) \<Rightarrow> frame \<Rightarrow> 'k \<Rightarrow> py_error + 'k group_row" where
  "group_sums dts key df k =
     (let s = np_sum (map numberOfSons (group_of key df k));
          d = np_sum (map numberOfDaughters (group_of key df k))
      in case column_divide dts s d of
           Inl e \<Rightarrow> Inl e
         | Inr q \<Rightarrow> Inr \<lparr>group_key = k, sons_sum = s, daughters_sum = d, sex_ratio = q\<rparr>)"

definition groupby_sum ::
  "dtypes \<Rightarrow> (member \<Rightarrow> 'k::linorder option) \<Rightarrow> frame \<Rightarrow> py_error + 'k group_row list" where
  "groupby_sum dts key df = collect (map (group_sums dts key df) (group_keys key df))"

text \<open>
  The group means of cells 14 and 21,
  \<^verbatim>\<open>df_kids.groupby('ls')['prop_daughter'].mean()\<close> and
  \<^verbatim>\<open>unique_df.groupby('ls')['total_kids'].mean()\<close>.
\<close>

definition groupby_mean ::
  "(member \<Rightarrow> 'k::linorder option) \<Rightarrow> (member \<Rightarrow> float64) \<Rightarrow> frame \<Rightarrow> ('k \<times> float64) list" where
  "groupby_mean key col df =
     map (\<lambda>k. (k, series_mean (map col (group_of key df k)))) (group_keys key df)"

text \<open>Cell 22, by Lok Sabha, from the raw frame; every row has its \<^verbatim>\<open>ls\<close>.\<close>

definition ls_table :: "dtypes \<Rightarrow> frame \<Rightarrow> py_error + string group_row list" where
  "ls_table dts df = groupby_sum dts (\<lambda>r. Some (ls r)) df"

text \<open>
  \<^verbatim>\<open>sort_values('sex_ratio', ascending=False)\<close>: the rows by falling ratio, the rows
  with a NaN ratio last. Rows of equal ratio are left in the order they had, which is what
  numpy's sort does on a table of up to sixteen rows; nothing below rests on the order of
  equal rows.
\<close>

fun ratio_less :: "float64 \<Rightarrow> float64 \<Rightarrow> bool" where
  "ratio_less (Fin x) (Fin y) = (x < y)"
| "ratio_less (Fin x) PosInf = True"
| "ratio_less a b = False"

fun insert_desc :: "'k group_row \<Rightarrow> 'k group_row list \<Rightarrow> 'k group_row list" where
  "insert_desc x [] = [x]"
| "insert_desc x (y # ys) =
     (if ratio_less (sex_ratio x) (sex_ratio y) then y # insert_desc x ys else x # y # ys)"

definition sort_values_desc :: "'k group_row list \<Rightarrow> 'k group_row list" where
  "sort_values_desc rows =
     foldr insert_desc (filter (\<lambda>g. sex_ratio g \<noteq> NaN) rows) []
       @ filter (\<lambda>g. sex_ratio g = NaN) rows"

text \<open>
  Cell 27, the party-wise table:
  \<^verbatim>\<open>
  adf = unique_df.groupby('partySname')[['numberOfSons', 'numberOfDaughters']].sum().reset_index()
  adf['sex_ratio'] = adf['numberOfSons']/adf['numberOfDaughters']
  pdf = adf[(adf['numberOfDaughters'] + adf['numberOfSons']) > 100]
            .sort_values('sex_ratio', ascending = False)[0:10]
  \<close>
\<close>

definition party_adf :: "dtypes \<Rightarrow> frame \<Rightarrow> py_error + string group_row list" where
  "party_adf dts udf = groupby_sum dts partySname udf"

definition party_pdf :: "dtypes \<Rightarrow> frame \<Rightarrow> py_error + string group_row list" where
  "party_pdf dts udf =
     (case party_adf dts udf of
        Inl e \<Rightarrow> Inl e
      | Inr adf \<Rightarrow>
          Inr (take 10 (sort_values_desc
            (filter (\<lambda>g. daughters_sum g + sons_sum g > 100) adf))))"

section \<open>The chi-square cell (cell 24)\<close>

text \<open>
  \<^verbatim>\<open>pd.crosstab(index, columns)\<close> counts, for every value of the row factor and every
  value of the column factor, the positions that carry both; rows and columns come in the
  order of their values, and a combination that does not occur counts 0.
\<close>

definition crosstab :: "'a::linorder list \<Rightarrow> 'b::linorder list \<Rightarrow> nat list list" where
  "crosstab index columns =
     map (\<lambda>r. map (\<lambda>c. count_list (zip index columns) (r, c)) (sort (remdups columns)))
       (sort (remdups index))"

text \<open>
  \<^verbatim>\<open>scipy.stats.chi2_contingency(observed)\<close> on a two-way table of counts (a list of
  rows of one length). The expected frequencies are the products of the row and column
  sums over the total. A table of size 0 and a table with an expected frequency of zero
  raise \<^verbatim>\<open>ValueError\<close>. With no degree of freedom left the function returns the
  constants \<^verbatim>\<open>chi2 = 0.0\<close> and \<^verbatim>\<open>p = 1.0\<close>; otherwise statistic and p-value are
  those of \<^verbatim>\<open>power_divergence\<close> on the observed and expected tables, which is kept
  here as that call: no claim below needs its value.
\<close>

datatype chi2_values =
  Values real real
  | Power_divergence "nat list list" "float64 list list" nat

record chi2_result =
  chi2_and_p :: chi2_values
  dof :: nat
  expected :: "float64 list list"

definition ncols :: "nat list list \<Rightarrow> nat" where
  "ncols observed = (case observed of [] \<Rightarrow> 0 | r # _ \<Rightarrow> length r)"

definition col_sums :: "nat list list \<Rightarrow> nat list" where
  "col_sums observed =
     map (\<lambda>j. sum_list (map (\<lambda>row. row ! j) observed)) [0..<ncols observed]"

definition expected_freq :: "nat list list \<Rightarrow> float64 list list" where
  "expected_freq observed =
     (let n = sum_list (map sum_list observed)
      in map (\<lambda>r. map (\<lambda>c. np_true_divide (r * c) n) (col_sums observed))
           (map sum_list observed))"

definition chi2_contingency :: "nat list list \<Rightarrow> py_error + chi2_result" where
  "chi2_contingency observed =
     (if length observed * ncols observed = 0 then Inl ValueError
      else if Fin 0 \<in> set (concat (expected_freq observed)) then Inl ValueError
      else
        (let d = length observed * ncols observed + 1 - (length observed + ncols observed)
         in if d = 0
            then Inr \<lparr>chi2_and_p = Values 0 1, dof = d, expected = expected_freq observed\<rparr>
            else Inr \<lparr>chi2_and_p = Power_divergence observed (expected_freq observed) d,
                       dof = d, expected = expected_freq observed\<rparr>))"

text \<open>
  \<^verbatim>\<open>
  chi2, p_value, dof, expected = stats.chi2_contingency(
      pd.crosstab(pdf['numberOfSons'], ['numberOfDaughters']))
  print('chi2:', chi2)
  print('p-value:', p_value)
  \<close>
  The column factor is the one-element list \<^verbatim>\<open>['numberOfDaughters']\<close>: pandas takes
  its element, the string, as the column factor and gives it to every row.
\<close>

definition chi2_table :: "string group_row list \<Rightarrow> nat list list" where
  "chi2_table pdf =
     crosstab (map sons_sum pdf) (replicate (length pdf) ''numberOfDaughters'')"

definition chi2_cell :: "string group_row list \<Rightarrow> py_error + chi2_result" where
  "chi2_cell pdf = chi2_contingency (chi2_table pdf)"

text \<open>What the cell prints: the statistic and the p-value, or the exception.\<close>

definition chi2_printed :: "py_error + chi2_result \<Rightarrow> py_error + chi2_values" where
  "chi2_printed res = (case res of Inl e \<Rightarrow> Inl e | Inr r \<Rightarrow> Inr (chi2_and_p r))"

section \<open>Field normalisation\<close>

text \<open>
  The documents of the data collection describe a text-to-number conversion of the
  Rajya Sabha fields \<^verbatim>\<open>NO_SONS\<close> and \<^verbatim>\<open>NO_DAUGHTER\<close>
  (\<^verbatim>\<open>"One" / "one" -> 1\<close>, \<^verbatim>\<open>"Two" / "two" -> 2\<close>, ...), done by the script
  \<^verbatim>\<open>extract_rajya_sabha.py\<close>. The script is not among the sources, so the conversion
  is modelled from the specification's contract of \<^verbatim>\<open>FieldNormalizer.normalize\<close>.
\<close>

datatype raw_value = Absent | Number real | Text string

datatype field_error = InvalidCount

definition number_words :: "string list" where
  "number_words =
     [''zero'', ''one'', ''two'', ''three'', ''four'', ''five'', ''six'', ''seven'',
      ''eight'', ''nine'', ''ten'', ''eleven'', ''twelve'', ''thirteen'', ''fourteen'',
      ''fifteen'', ''sixteen'', ''seventeen'', ''eighteen'', ''nineteen'', ''twenty'']"

definition is_space :: "char \<Rightarrow> bool" where
  "is_space c =
     (c \<in> set [CHR '' '', CHR 0x09, CHR 0x0A, CHR 0x0B, CHR 0x0C, CHR 0x0D])"

definition trim :: "string \<Rightarrow> string" where
  "trim s = rev (dropWhile is_space (rev (dropWhile is_space s)))"

definition lower_char :: "char \<Rightarrow> char" where
  "lower_char c =
     (case map_of (zip ''ABCDEFGHIJKLMNOPQRSTUVWXYZ'' ''abcdefghijklmnopqrstuvwxyz'') c of
        None \<Rightarrow> c
      | Some l \<Rightarrow> l)"

definition lower :: "string \<Rightarrow> string" where
  "lower s = map lower_char s"

fun index_of :: "'a \<Rightarrow> 'a list \<Rightarrow> nat option" where
  "index_of x [] = None"
| "index_of x (y # ys) =
     (if x = y then Some 0 else map_option Suc (index_of x ys))"

definition is_digit :: "char \<Rightarrow> bool" where
  "is_digit c = (c \<in> set ''0123456789'')"

definition digit_value :: "char \<Rightarrow> nat" where
  "digit_value c = (case index_of c ''0123456789'' of None \<Rightarrow> 0 | Some d \<Rightarrow> d)"

definition parse_digits :: "string \<Rightarrow> nat" where
  "parse_digits s = foldl (\<lambda>acc c. 10 * acc + digit_value c) 0 s"

text \<open>
  Modelled from the spec: \<^verbatim>\<open>FieldNormalizer.normalize\<close>, whose code
  (\<^verbatim>\<open>extract_rajya_sabha.py\<close>) is missing from the sources. An absent value gives
  \<open>None\<close>; a number gives its value when it is integral and not negative, and
  \<open>InvalidCount\<close> otherwise; a string is trimmed and matched, whatever its letter
  case, against the number words zero to twenty and against plain digit strings, and an
  unmatched string gives \<open>InvalidCount\<close>.
\<close>

definition normalize :: "raw_value \<Rightarrow> field_error + nat option" where
  "normalize v =
     (case v of
        Absent \<Rightarrow> Inr None
      | Number x \<Rightarrow>
          if 0 \<le> x \<and> x = of_int \<lfloor>x\<rfloor> then Inr (Some (nat \<lfloor>x\<rfloor>)) else Inl InvalidCount
      | Text s \<Rightarrow>
          (let t = lower (trim s)
           in case index_of t number_words of
                Some n \<Rightarrow> Inr (Some n)
              | None \<Rightarrow>
                  if t \<noteq> [] \<and> list_all is_digit t then Inr (Some (parse_digits t))
                  else Inl InvalidCount))"

text \<open>The digit string of a number.\<close>

fun decimal :: "nat \<Rightarrow> string" where
  "decimal n =
     (if n < 10 then [''0123456789'' ! n]
      else decimal (n div 10) @ [''0123456789'' ! (n mod 10)])"

section \<open>Example frames\<close>

text \<open>
  Three rows of two members: member 1 sits in two Lok Sabhas, member 2 has no family data.
\<close>

definition member_1_ls16 :: member where
  "member_1_ls16 =
     \<lparr>mpsno = 1, ls = ''16'', partySname = Some ''INC'',
       numberOfSons = Some 2, numberOfDaughters = Some 1\<rparr>"

definition no_data_member :: member where
  "no_data_member =
     \<lparr>mpsno = 2, ls = ''16'', partySname = Some ''BJP'',
       numberOfSons = None, numberOfDaughters = None\<rparr>"

definition member_1_ls17 :: member where
  "member_1_ls17 =
     \<lparr>mpsno = 1, ls = ''17'', partySname = Some ''INC'',
       numberOfSons = Some 2, numberOfDaughters = Some 1\<rparr>"

definition example_df :: frame where
  "example_df = [member_1_ls16, no_data_member, member_1_ls17]"

text \<open>A member with one son and no daughter.\<close>

definition only_sons_df :: frame where
  "only_sons_df =
     [\<lparr>mpsno = 1, ls = ''17'', partySname = Some ''BJP'',
        numberOfSons = Some 1, numberOfDaughters = Some 0\<rparr>]"

text \<open>A member whose daughters are not recorded, and one with both counts.\<close>

definition half_missing_df :: frame where
  "half_missing_df =
     [\<lparr>mpsno = 1, ls = ''17'', partySname = Some ''BJP'',
        numberOfSons = Some 3, numberOfDaughters = None\<rparr>,
      \<lparr>mpsno = 2, ls = ''17'', partySname = Some ''INC'',
        numberOfSons = Some 1, numberOfDaughters = Some 1\<rparr>]"

text \<open>
  Three members of two parties; only one party has more than a hundred children on
  record.
\<close>

definition two_party_df :: frame where
  "two_party_df =
     [\<lparr>mpsno = 1, ls = ''17'', partySname = Some ''INC'',
        numberOfSons = Some 2, numberOfDaughters = Some 1\<rparr>,
      \<lparr>mpsno = 2, ls = ''17'', partySname = Some ''BJP'',
        numberOfSons = Some 60, numberOfDaughters = Some 45\<rparr>,
      \<lparr>mpsno = 3, ls = ''17'', partySname = Some ''BJP'',
        numberOfSons = Some 10, numberOfDaughters = Some 5\<rparr>]"

text \<open>The row of the party-wise table that \<open>two_party_df\<close> gives the BJP.\<close>

definition bjp_row :: "string group_row" where
  "bjp_row = \<lparr>group_key = ''BJP'', sons_sum = 70, daughters_sum = 50, sex_ratio = Fin (7 / 5)\<rparr>"

definition inc_row :: "string group_row" where
  "inc_row = \<lparr>group_key = ''INC'', sons_sum = 2, daughters_sum = 1, sex_ratio = Fin 2\<rparr>"

section \<open>Deduplication keeps the last record of each key\<close>

lemma drop_duplicates_last_keys:
  "map key (drop_duplicates_last key rs) = remdups (map key rs)"
  by (induction rs) auto

lemma drop_duplicates_last_set_keys:
  "key ` set (drop_duplicates_last key rs) = key ` set rs"
proof -
  have "set (map key (drop_duplicates_last key rs)) = set (map key rs)"
    by (simp only: drop_duplicates_last_keys set_remdups)
  then show ?thesis by simp
qed

lemma drop_duplicates_last_distinct:
  "distinct (map key (drop_duplicates_last key rs))"
  by (simp add: drop_duplicates_last_keys)

lemma drop_duplicates_last_id:
  "distinct (map key rs) \<Longrightarrow> drop_duplicates_last key rs = rs"
  by (induction rs) auto

lemma drop_duplicates_last_subseq:
  "subseq (drop_duplicates_last key rs) rs"
  by (induction rs) (auto intro: subseq_Cons')

lemma drop_duplicates_last_unseen:
  "k \<notin> key ` set rs \<Longrightarrow> filter (\<lambda>x. key x = k) (drop_duplicates_last key rs) = []"
  by (induction rs) auto

lemma drop_duplicates_last_keeps_last:
  "key r \<notin> key ` set ys \<Longrightarrow>
   filter (\<lambda>x. key x = key r) (drop_duplicates_last key (xs @ r # ys)) = [r]"
proof (induction xs)
  case Nil
  then show ?case by (simp add: drop_duplicates_last_unseen)
next
  case (Cons x xs)
  then show ?case by auto
qed

lemma first_appearance_snoc:
  "first_appearance (ks @ [k]) =
     (if k \<in> set ks then first_appearance ks else first_appearance ks @ [k])"
proof (induction ks)
  case Nil
  then show ?case by simp
next
  case (Cons a ks)
  have set_fa: "\<And>zs::'a list. set (first_appearance zs) = set zs"
  proof -
    fix zs :: "'a list" show "set (first_appearance zs) = set zs"
      by (induction zs) auto
  qed
  show ?case
  proof (cases "k = a")
    case True
    have "filter (\<lambda>x. x \<noteq> a) (first_appearance ks @ [a]) = filter (\<lambda>x. x \<noteq> a) (first_appearance ks)"
      by simp
    with True Cons show ?thesis by (auto split: if_splits)
  next
    case False
    with Cons show ?thesis by (auto split: if_splits)
  qed
qed

lemma remdups_last_appearance:
  "remdups ks = rev (first_appearance (rev ks))"
proof (induction ks)
  case Nil
  then show ?case by simp
next
  case (Cons k ks)
  then show ?case by (simp add: first_appearance_snoc)
qed

text \<open>
  C3, as the notebook deduplicates: when a key occurs more than once,
  \<^verbatim>\<open>drop_duplicates(keep='last')\<close> keeps exactly one record of that key, the one
  latest in the input; deduplicating twice is deduplicating once; and the records kept
  stand in the order of the last appearance of their keys (the order of first appearance
  read from the end of the input), each at the place it had in the input.
\<close>

theorem drop_duplicates_keep_last_policy:
  "(key r \<notin> key ` set ys \<longrightarrow>
      filter (\<lambda>x. key x = key r) (drop_duplicates_last key (xs @ r # ys)) = [r])
   \<and> distinct (map key (drop_duplicates_last key df))
   \<and> key ` set (drop_duplicates_last key df) = key ` set df
   \<and> drop_duplicates_last key (drop_duplicates_last key df) = drop_duplicates_last key df
   \<and> subseq (drop_duplicates_last key df) df
   \<and> map key (drop_duplicates_last key df) = rev (first_appearance (rev (map key df)))"
proof (intro conjI impI)
  assume "key r \<notin> key ` set ys"
  then show "filter (\<lambda>x. key x = key r) (drop_duplicates_last key (xs @ r # ys)) = [r]"
    by (rule drop_duplicates_last_keeps_last)
next
  show "distinct (map key (drop_duplicates_last key df))"
    by (rule drop_duplicates_last_distinct)
next
  show "key ` set (drop_duplicates_last key df) = key ` set df"
    by (rule drop_duplicates_last_set_keys)
next
  show "drop_duplicates_last key (drop_duplicates_last key df) = drop_duplicates_last key df"
    by (rule drop_duplicates_last_id) (rule drop_duplicates_last_distinct)
next
  show "subseq (drop_duplicates_last key df) df"
    by (rule drop_duplicates_last_subseq)
next
  show "map key (drop_duplicates_last key df) = rev (first_appearance (rev (map key df)))"
    by (simp only: drop_duplicates_last_keys remdups_last_appearance)
qed

section \<open>The sex ratio\<close>

lemma count_of_simps: "count_of None = 0" "count_of (Some n) = n"
  by (simp_all add: count_of_def)

lemma isna_None: "isna c = (c = None)"
  by (cases c) (simp_all add: isna_def)

lemma nan_add_simps:
  "nan_add None b = None" "nan_add a None = None" "nan_add (Some x) (Some y) = Some (x + y)"
  by (cases a; simp add: nan_add_def)+

lemma np_sum_count_of: "np_sum cs = sum_list (map count_of cs)"
  by (induction cs rule: np_sum.induct) (simp_all add: count_of_simps)

lemma float_sum_acc:
  "foldl nan_add a cs =
     (if a = None \<or> None \<in> set cs then None
      else Some (count_of a + sum_list (map count_of cs)))"
proof (induction cs arbitrary: a)
  case Nil
  then show ?case by (cases a) (simp_all add: count_of_simps)
next
  case (Cons c cs)
  show ?case
    by (cases a; cases c) (simp_all add: Cons nan_add_simps count_of_simps)
qed

lemma float_sum_eq:
  "float_sum cs = (if None \<in> set cs then None else Some (sum_list (map count_of cs)))"
  by (simp add: float_sum_def float_sum_acc count_of_simps)

lemma np_sum_column_total: "np_sum (map col data) = column_total col data"
  by (induction data) (auto simp: np_sum_count_of column_total_def isna_None count_of_simps)

lemma sum_all_column_total:
  "sum_list (map count_of (map col data)) = column_total col data"
  using np_sum_column_total[of col data] by (simp add: np_sum_count_of)

lemma column_total_df_small:
  "column_total col (df_small data) = column_total col data"
  if "col = numberOfSons \<or> col = numberOfDaughters"
  using that
  by (induction data) (auto simp: column_total_def df_small_def isna_None)

lemma column_total_both:
  assumes "\<forall>r\<in>set data. isna (numberOfSons r) = isna (numberOfDaughters r)"
  shows "column_total numberOfSons data = sons_total data"
    and "column_total numberOfDaughters data = daughters_total data"
    and "\<not> lacks numberOfSons (df_small data)"
    and "\<not> lacks numberOfDaughters (df_small data)"
  using assms
  by (induction data)
    (auto simp: column_total_def sons_total_def daughters_total_def both_present_def
      isna_None lacks_def df_small_def)

lemma calculate_ratio_eq:
  "calculate_ratio dts data =
     (if column_total numberOfDaughters data \<noteq> 0
      then Inr (Fin (real (column_total numberOfSons data)
                      / real (column_total numberOfDaughters data)))
      else if sons_dtype dts = Object \<and> daughters_dtype dts = Object
      then Inl ZeroDivisionError
      else Inr (if column_total numberOfSons data = 0 then NaN else PosInf))"
  by (simp add: calculate_ratio_def Let_def np_sum_column_total scalar_divide_def
      py_truediv_def np_true_divide_def)

lemma agg_float:
  "agg_sex_ratio float_columns data =
     (if lacks numberOfDaughters data then Inr NaN
      else if column_total numberOfDaughters data = 0 then Inl ZeroDivisionError
      else if lacks numberOfSons data then Inr NaN
      else Inr (Fin (real (column_total numberOfSons data)
                      / real (column_total numberOfDaughters data))))"
proof -
  have s: "float_sum (map numberOfSons data) =
      (if lacks numberOfSons data then None else Some (column_total numberOfSons data))"
    by (simp only: float_sum_eq lacks_def sum_all_column_total)
  have d: "float_sum (map numberOfDaughters data) =
      (if lacks numberOfDaughters data then None
       else Some (column_total numberOfDaughters data))"
    by (simp only: float_sum_eq lacks_def sum_all_column_total)
  show ?thesis
    by (simp add: agg_sex_ratio_def float_columns_def builtin_sum_def s d py_truediv_def)
qed

text \<open>
  C1, as the notebook computes the ratio. \<^verbatim>\<open>calculate_ratio\<close> divides the sum of the
  sons on record by the sum of the daughters on record, each sum skipping the nulls of its
  own column, so a record with one count missing still enters the other sum. When the
  daughters sum is zero there is no "undefined" result: the function raises
  \<^verbatim>\<open>ZeroDivisionError\<close> when both columns are object (every count of the raw frame
  null), and returns numpy's \<^verbatim>\<open>inf\<close>, or \<^verbatim>\<open>nan\<close> for 0/0, otherwise. Cell 4 keeps
  a record with one count in \<^verbatim>\<open>df_small\<close>. The inline ratio on \<^verbatim>\<open>df_small\<close>, with
  float64 columns, is \<^verbatim>\<open>nan\<close> when a record lacks its daughters, raises
  \<^verbatim>\<open>ZeroDivisionError\<close> when the daughters sum is zero, is \<^verbatim>\<open>nan\<close> when a record
  lacks its sons, and is the quotient of the two sums otherwise; on an empty frame it
  raises. When the two counts of a record are missing together or not at all (as in the
  corpus: the notebook prints 213 and 213 and says "Same rows"), no record of
  \<^verbatim>\<open>df_small\<close> lacks a count and the sums are those over the records with both counts.
\<close>

theorem sex_ratio_of_sums:
  "calculate_ratio dts data =
     (if column_total numberOfDaughters data \<noteq> 0
      then Inr (Fin (real (column_total numberOfSons data)
                      / real (column_total numberOfDaughters data)))
      else if sons_dtype dts = Object \<and> daughters_dtype dts = Object
      then Inl ZeroDivisionError
      else Inr (if column_total numberOfSons data = 0 then NaN else PosInf))
   \<and> set (df_small data)
       = {r. r \<in> set data \<and> (numberOfSons r \<noteq> None \<or> numberOfDaughters r \<noteq> None)}
   \<and> agg_sex_ratio float_columns (df_small data) =
       (if lacks numberOfDaughters (df_small data) then Inr NaN
        else if column_total numberOfDaughters data = 0 then Inl ZeroDivisionError
        else if lacks numberOfSons (df_small data) then Inr NaN
        else Inr (Fin (real (column_total numberOfSons data)
                        / real (column_total numberOfDaughters data))))
   \<and> agg_sex_ratio dts [] = Inl ZeroDivisionError
   \<and> ((\<forall>r\<in>set data. isna (numberOfSons r) = isna (numberOfDaughters r)) \<longrightarrow>
        column_total numberOfSons data = sons_total data
        \<and> column_total numberOfDaughters data = daughters_total data
        \<and> \<not> lacks numberOfSons (df_small data)
        \<and> \<not> lacks numberOfDaughters (df_small data))"
proof (intro conjI impI)
  show "calculate_ratio dts data =
     (if column_total numberOfDaughters data \<noteq> 0
      then Inr (Fin (real (column_total numberOfSons data)
                      / real (column_total numberOfDaughters data)))
      else if sons_dtype dts = Object \<and> daughters_dtype dts = Object
      then Inl ZeroDivisionError
      else Inr (if column_total numberOfSons data = 0 then NaN else PosInf))"
    by (rule calculate_ratio_eq)
  show "set (df_small data)
       = {r. r \<in> set data \<and> (numberOfSons r \<noteq> None \<or> numberOfDaughters r \<noteq> None)}"
    by (auto simp: df_small_def isna_None)
  show "agg_sex_ratio float_columns (df_small data) =
       (if lacks numberOfDaughters (df_small data) then Inr NaN
        else if column_total numberOfDaughters data = 0 then Inl ZeroDivisionError
        else if lacks numberOfSons (df_small data) then Inr NaN
        else Inr (Fin (real (column_total numberOfSons data)
                        / real (column_total numberOfDaughters data))))"
    using column_total_df_small[of numberOfSons data]
      column_total_df_small[of numberOfDaughters data]
    by (simp add: agg_float)
  show "agg_sex_ratio dts [] = Inl ZeroDivisionError"
    by (cases "sons_dtype dts"; cases "daughters_dtype dts")
      (simp_all add: agg_sex_ratio_def builtin_sum_def float_sum_def py_truediv_def)
next
  assume h: "\<forall>r\<in>set data. isna (numberOfSons r) = isna (numberOfDaughters r)"
  show "column_total numberOfSons data = sons_total data"
    and "column_total numberOfDaughters data = daughters_total data"
    and "\<not> lacks numberOfSons (df_small data)"
    and "\<not> lacks numberOfDaughters (df_small data)"
    using column_total_both[OF h] by simp_all
qed

lemma example_df_totals: "sons_total example_df = 4" "daughters_total example_df = 2"
  by (simp_all add: example_df_def member_1_ls16_def no_data_member_def member_1_ls17_def
      sons_total_def daughters_total_def both_present_def isna_def count_of_def)

theorem sex_ratio_of_sums_witness:
  "calculate_ratio float_columns example_df = Inr (Fin 2)
   \<and> agg_sex_ratio float_columns (df_small example_df) = Inr (Fin 2)"
proof -
  have h: "\<forall>r\<in>set example_df. isna (numberOfSons r) = isna (numberOfDaughters r)"
    by (simp add: example_df_def member_1_ls16_def no_data_member_def member_1_ls17_def isna_def)
  from sex_ratio_of_sums[of float_columns example_df] h
  show ?thesis by (simp add: example_df_totals float_columns_def)
qed

text \<open>
  The claim as stated fails. With one son and no daughter \<^verbatim>\<open>calculate_ratio\<close> yields
  infinity and the inline ratio raises. A record with only its sons recorded enters the
  sons sum of \<^verbatim>\<open>calculate_ratio\<close> (4/1), though it is not a record with both counts
  (1/1). On the empty \<^verbatim>\<open>df_small\<close> of a raw frame without any count, whose columns are
  object, \<^verbatim>\<open>calculate_ratio\<close> raises.
\<close>

theorem sex_ratio_counterexample:
  "dtypes_of only_sons_df = float_columns
   \<and> dtypes_of half_missing_df = float_columns
   \<and> calculate_ratio float_columns only_sons_df = Inr PosInf
   \<and> agg_sex_ratio float_columns only_sons_df = Inl ZeroDivisionError
   \<and> calculate_ratio float_columns half_missing_df = Inr (Fin 4)
   \<and> sons_total half_missing_df = 1 \<and> daughters_total half_missing_df = 1
   \<and> calculate_ratio (dtypes_of [no_data_member]) (df_small [no_data_member])
       = Inl ZeroDivisionError"
  by (simp add: only_sons_df_def half_missing_df_def no_data_member_def calculate_ratio_def
      scalar_divide_def np_true_divide_def agg_sex_ratio_def builtin_sum_def float_sum_def
      nan_add_def py_truediv_def sons_total_def daughters_total_def both_present_def
      isna_def count_of_def float_columns_def dtypes_of_def column_dtype_def df_small_def)

section \<open>Deduplication on the example frame\<close>

theorem drop_duplicates_keep_last_policy_witness:
  "mpsno member_1_ls17 \<notin> mpsno ` set []
   \<and> filter (\<lambda>x. mpsno x = mpsno member_1_ls17)
        (drop_duplicates_last mpsno ([member_1_ls16, no_data_member] @ member_1_ls17 # []))
       = [member_1_ls17]
   \<and> drop_duplicates_last mpsno example_df = [no_data_member, member_1_ls17]"
proof -
  have "filter (\<lambda>x. mpsno x = mpsno member_1_ls17)
        (drop_duplicates_last mpsno ([member_1_ls16, no_data_member] @ member_1_ls17 # []))
       = [member_1_ls17]"
    using drop_duplicates_keep_last_policy
      [of mpsno member_1_ls17 "[]" "[member_1_ls16, no_data_member]" "[]"]
    by simp
  moreover have "drop_duplicates_last mpsno example_df = [no_data_member, member_1_ls17]"
    by (simp add: example_df_def member_1_ls16_def no_data_member_def member_1_ls17_def)
  ultimately show ?thesis by simp
qed

text \<open>
  The claim as stated fails on the order: member 1 appears first in the input and second
  in the output, so the output follows the last appearances, not the first ones.
\<close>

theorem drop_duplicates_order_counterexample:
  "map mpsno (drop_duplicates_last mpsno example_df) = [2, 1]
   \<and> first_appearance (map mpsno example_df) = [1, 2]"
  by (simp add: example_df_def member_1_ls16_def no_data_member_def member_1_ls17_def)

section \<open>The proportion of daughters\<close>

lemma total_kids_cases:
  "total_kids r =
     (case numberOfSons r of None \<Rightarrow> None
      | Some s \<Rightarrow> (case numberOfDaughters r of None \<Rightarrow> None | Some d \<Rightarrow> Some (s + d)))"
  by (simp add: total_kids_def nan_add_def add.commute split: option.splits)

lemma gt_zero_total_kids: "gt_zero (total_kids r) = has_kids r"
  by (simp add: total_kids_cases gt_zero_def has_kids_def split: option.splits)

lemma df_kids_has_kids: "df_kids udf = filter has_kids udf"
  by (simp add: df_kids_def gt_zero_total_kids)

lemma prop_daughter_has_kids: "has_kids r \<Longrightarrow> prop_daughter r = Fin (daughters_share r)"
  by (auto simp: has_kids_def prop_daughter_def total_kids_cases series_div_def
      np_true_divide_def daughters_share_def count_of_simps add.commute split: option.splits)

lemma finite_values_Fin: "finite_values (map Fin xs) = Some xs"
  by (induction xs) simp_all

lemma series_mean_Fin: "series_mean (map Fin xs) = (if xs = [] then NaN else Fin (mean_of xs))"
proof -
  have "filter (\<lambda>x. x \<noteq> NaN) (map Fin xs) = map Fin xs"
    by (induction xs) simp_all
  then show ?thesis by (simp add: series_mean_def finite_values_Fin)
qed

text \<open>
  C2: \<^verbatim>\<open>total_kids\<close> is sons plus daughters when both counts are present and missing
  when either is; \<^verbatim>\<open>df_kids\<close> holds exactly the records with both counts and at least
  one child; and the printed mean is the mean of daughters over total children of those
  records (numpy's \<^verbatim>\<open>nan\<close> when there is none). Records without children and records
  with a missing count do not enter.
\<close>

theorem prop_daughter_mean_over_parents:
  "total_kids r =
     (case numberOfSons r of None \<Rightarrow> None
      | Some s \<Rightarrow> (case numberOfDaughters r of None \<Rightarrow> None | Some d \<Rightarrow> Some (s + d)))
   \<and> df_kids udf = filter has_kids udf
   \<and> prop_daughter_mean udf =
       (if filter has_kids udf = [] then NaN
        else Fin (mean_of (map daughters_share (filter has_kids udf))))"
proof (intro conjI)
  have "map prop_daughter (filter has_kids udf)
          = map Fin (map daughters_share (filter has_kids udf))"
    by (simp add: prop_daughter_has_kids)
  then show "prop_daughter_mean udf =
       (if filter has_kids udf = [] then NaN
        else Fin (mean_of (map daughters_share (filter has_kids udf))))"
    by (simp only: prop_daughter_mean_def df_kids_has_kids series_mean_Fin map_is_Nil_conv)
qed (simp_all only: total_kids_cases df_kids_has_kids)

section \<open>Empty and permuted input\<close>








section \<open>Records with no family data\<close>







section \<open>The bootstrap cell\<close>



















section \<open>The chi-square test on degenerate tables\<close>

lemma np_true_divide_self: "0 < n \<Longrightarrow> np_true_divide (c * n) n = Fin (real c)"
  by (simp add: np_true_divide_def)

lemma np_true_divide_self': "0 < n \<Longrightarrow> np_true_divide (n * c) n = Fin (real c)"
  by (simp add: np_true_divide_def)

lemma np_true_divide_zero: "0 < n \<Longrightarrow> np_true_divide 0 n = Fin 0"
  by (simp add: np_true_divide_def)

lemma sum_list_pos: "cs \<noteq> [] \<Longrightarrow> 0 \<notin> set cs \<Longrightarrow> 0 < sum_list (cs::nat list)"
  by (cases cs) auto

lemma in_concatI: "row \<in> set xss \<Longrightarrow> x \<in> set row \<Longrightarrow> x \<in> set (concat xss)"
  by auto

lemma length_col_sums: "length (col_sums obs) = ncols obs"
  by (simp add: col_sums_def)

lemma single_column:
  assumes "cs \<noteq> []" and "0 \<notin> set cs"
  shows "chi2_contingency (map (\<lambda>c. [c]) cs) =
           Inr \<lparr>chi2_and_p = Values 0 1, dof = 0,
                expected = map (\<lambda>c. [Fin (real c)]) cs\<rparr>"
proof -
  let ?obs = "map (\<lambda>c. [c]) cs"
  have n: "ncols ?obs = 1" using assms(1) by (cases cs) (simp_all add: ncols_def)
  have rs: "map sum_list ?obs = cs" by (simp add: comp_def)
  have cl: "col_sums ?obs = [sum_list cs]" by (simp add: col_sums_def n comp_def)
  have pos: "0 < sum_list cs" using assms by (rule sum_list_pos)
  have e: "expected_freq ?obs = map (\<lambda>c. [Fin (real c)]) cs"
    unfolding expected_freq_def Let_def rs cl using pos by (simp add: np_true_divide_self)
  have z: "Fin 0 \<notin> set (concat (map (\<lambda>c. [Fin (real c)]) cs))"
    using assms(2) by (induction cs) auto
  show ?thesis
    unfolding chi2_contingency_def e using assms(1) z by (simp add: n)
qed

lemma single_row:
  assumes "cs \<noteq> []" and "0 \<notin> set cs"
  shows "chi2_contingency [cs] =
           Inr \<lparr>chi2_and_p = Values 0 1, dof = 0,
                expected = [map (\<lambda>c. Fin (real c)) cs]\<rparr>"
proof -
  have n: "ncols [cs] = length cs" by (simp add: ncols_def)
  have cl: "col_sums [cs] = cs" by (simp add: col_sums_def n map_nth)
  have pos: "0 < sum_list cs" using assms by (rule sum_list_pos)
  have e: "expected_freq [cs] = [map (\<lambda>c. Fin (real c)) cs]"
    unfolding expected_freq_def Let_def cl using pos by (simp add: np_true_divide_self')
  have z: "Fin 0 \<notin> set (concat [map (\<lambda>c. Fin (real c)) cs])"
    using assms(2) by (induction cs) auto
  show ?thesis
    unfolding chi2_contingency_def e using assms(1) z by (simp add: n)
qed

lemma expected_row:
  "r \<in> set observed \<Longrightarrow>
   map (\<lambda>c. np_true_divide (sum_list r * c) (sum_list (map sum_list observed)))
     (col_sums observed) \<in> set (expected_freq observed)"
  by (auto simp: expected_freq_def Let_def)

lemma zero_row:
  assumes "0 < ncols observed" and "r \<in> set observed" and "sum_list r = 0"
    and "0 < sum_list (map sum_list observed)"
  shows "chi2_contingency observed = Inl ValueError"
proof -
  define n where "n = sum_list (map sum_list observed)"
  have pos: "0 < n" using assms(4) by (simp only: n_def)
  obtain c cs where c: "col_sums observed = c # cs"
    using assms(1) length_col_sums[of observed] by (cases "col_sums observed") auto
  have "map (\<lambda>c. np_true_divide (sum_list r * c) n) (col_sums observed)
          \<in> set (expected_freq observed)"
    unfolding n_def using assms(2) by (rule expected_row)
  moreover have "Fin 0 \<in> set (map (\<lambda>c. np_true_divide (sum_list r * c) n) (col_sums observed))"
    by (simp add: c assms(3) np_true_divide_zero[OF pos])
  ultimately have "Fin 0 \<in> set (concat (expected_freq observed))" by (rule in_concatI)
  moreover have "length observed * ncols observed \<noteq> 0"
    using assms(1,2) by (cases observed) auto
  ultimately show ?thesis by (simp add: chi2_contingency_def)
qed

lemma zero_column:
  assumes "observed \<noteq> []" and "j < ncols observed" and "col_sums observed ! j = 0"
    and "0 < sum_list (map sum_list observed)"
  shows "chi2_contingency observed = Inl ValueError"
proof -
  define n where "n = sum_list (map sum_list observed)"
  have pos: "0 < n" using assms(4) by (simp only: n_def)
  obtain r where r: "r \<in> set observed" using assms(1) by (cases observed) auto
  let ?row = "map (\<lambda>c. np_true_divide (sum_list r * c) n) (col_sums observed)"
  have "?row \<in> set (expected_freq observed)"
    unfolding n_def using r by (rule expected_row)
  moreover have j: "j < length ?row" using assms(2) by (simp add: length_col_sums)
  have "?row ! j = Fin 0"
    using assms(2) by (simp add: length_col_sums assms(3) np_true_divide_zero[OF pos])
  then have "Fin 0 \<in> set ?row"
    using j by (metis nth_mem)
  ultimately have "Fin 0 \<in> set (concat (expected_freq observed))" by (rule in_concatI)
  moreover have "length observed * ncols observed \<noteq> 0"
    using assms(1,2) by auto
  ultimately show ?thesis by (simp add: chi2_contingency_def)
qed

text \<open>
  C6, as \<^verbatim>\<open>chi2_contingency\<close> treats a degenerate table. A table of one column or of
  one row, with no empty cell, has no degree of freedom: the test returns
  \<^verbatim>\<open>chi2 = 0.0\<close>, \<^verbatim>\<open>p = 1.0\<close> and \<^verbatim>\<open>dof = 0\<close> in an ordinary result, with no
  signal of its own. A table with counts in it in which a whole row or a whole column is
  zero (one populated cell among several rows and columns, say) has an expected
  frequency of zero, and the test raises \<^verbatim>\<open>ValueError\<close>.
\<close>

theorem chi2_contingency_degenerate:
  "(cs \<noteq> [] \<and> 0 \<notin> set cs \<longrightarrow>
      chi2_contingency (map (\<lambda>c. [c]) cs)
        = Inr \<lparr>chi2_and_p = Values 0 1, dof = 0, expected = map (\<lambda>c. [Fin (real c)]) cs\<rparr>
      \<and> chi2_contingency [cs]
        = Inr \<lparr>chi2_and_p = Values 0 1, dof = 0, expected = [map (\<lambda>c. Fin (real c)) cs]\<rparr>)
   \<and> (0 < ncols observed \<and> r \<in> set observed \<and> sum_list r = 0
        \<and> 0 < sum_list (map sum_list observed) \<longrightarrow>
      chi2_contingency observed = Inl ValueError)
   \<and> (observed \<noteq> [] \<and> j < ncols observed \<and> col_sums observed ! j = 0
        \<and> 0 < sum_list (map sum_list observed) \<longrightarrow>
      chi2_contingency observed = Inl ValueError)"
  using single_column[of cs] single_row[of cs] zero_row[of observed r]
    zero_column[of observed j]
  by blast

theorem chi2_contingency_degenerate_witness:
  "chi2_contingency [[4], [6]]
     = Inr \<lparr>chi2_and_p = Values 0 1, dof = 0, expected = [[Fin 4], [Fin 6]]\<rparr>
   \<and> chi2_contingency [[4, 6]]
     = Inr \<lparr>chi2_and_p = Values 0 1, dof = 0, expected = [[Fin 4, Fin 6]]\<rparr>
   \<and> col_sums [[0, 0], [3, 0]] ! 1 = 0
   \<and> chi2_contingency [[0, 0], [3, 0]] = Inl ValueError"
proof -
  have c: "ncols [[0, 0], [3, 0]] = 2" "col_sums [[0, 0], [3, 0]] ! 1 = 0"
    by (simp_all add: ncols_def col_sums_def upt_rec)
  from chi2_contingency_degenerate[of "[4, 6]" "[[0, 0], [3, 0]]" "[0, 0]" 1] c
  show ?thesis by simp
qed

text \<open>
  The claim as stated fails: with one populated cell in a table of two rows and two
  columns the test raises; and on a one-column table the result is an ordinary one.
\<close>

theorem chi2_contingency_one_cell_counterexample:
  "chi2_contingency [[5, 0], [0, 0]] = Inl ValueError
   \<and> chi2_contingency [[3], [2]]
     = Inr \<lparr>chi2_and_p = Values 0 1, dof = 0, expected = [[Fin 3], [Fin 2]]\<rparr>"
  by (simp add: chi2_contingency_def ncols_def expected_freq_def col_sums_def
      np_true_divide_def upt_rec)

section \<open>The party-wise table\<close>

lemma set_insert_desc: "set (insert_desc x ys) = insert x (set ys)"
  by (induction ys) auto

lemma length_insert_desc: "length (insert_desc x ys) = Suc (length ys)"
  by (induction ys) auto

lemma set_foldr_insert_desc: "set (foldr insert_desc xs []) = set xs"
  by (induction xs) (simp_all add: set_insert_desc)

lemma set_sort_values_desc: "set (sort_values_desc rows) = set rows"
  by (auto simp: sort_values_desc_def set_foldr_insert_desc)

lemma length_foldr_insert_desc: "length (foldr insert_desc xs []) = length xs"
  by (induction xs) (simp_all add: length_insert_desc)

lemma length_sort_values_desc: "length (sort_values_desc rows) = length rows"
proof -
  have "length (filter (\<lambda>g. sex_ratio g \<noteq> NaN) rows)
          + length (filter (\<lambda>g. sex_ratio g = NaN) rows) = length rows"
    using sum_length_filter_compl[of "\<lambda>g. sex_ratio g \<noteq> NaN" rows] by simp
  then show ?thesis by (simp add: sort_values_desc_def length_foldr_insert_desc)
qed

lemma collect_Inr: "collect (map (\<lambda>x. Inr (f x)) xs) = Inr (map f xs)"
  by (induction xs) simp_all

lemma group_sums_float:
  "sons_dtype dts = Float64 \<and> daughters_dtype dts = Float64 \<Longrightarrow>
   group_sums dts key df k =
     Inr \<lparr>group_key = k,
          sons_sum = np_sum (map numberOfSons (group_of key df k)),
          daughters_sum = np_sum (map numberOfDaughters (group_of key df k)),
          sex_ratio = np_true_divide (np_sum (map numberOfSons (group_of key df k)))
                        (np_sum (map numberOfDaughters (group_of key df k)))\<rparr>"
  by (simp add: group_sums_def column_divide_def Let_def)

lemma groupby_sum_float:
  "sons_dtype dts = Float64 \<and> daughters_dtype dts = Float64 \<Longrightarrow>
   groupby_sum dts key df =
     Inr (map (\<lambda>k. \<lparr>group_key = k,
          sons_sum = np_sum (map numberOfSons (group_of key df k)),
          daughters_sum = np_sum (map numberOfDaughters (group_of key df k)),
          sex_ratio = np_true_divide (np_sum (map numberOfSons (group_of key df k)))
                        (np_sum (map numberOfDaughters (group_of key df k)))\<rparr>)
        (group_keys key df))"
proof -
  assume h: "sons_dtype dts = Float64 \<and> daughters_dtype dts = Float64"
  have "group_sums dts key df = (\<lambda>k. Inr \<lparr>group_key = k,
          sons_sum = np_sum (map numberOfSons (group_of key df k)),
          daughters_sum = np_sum (map numberOfDaughters (group_of key df k)),
          sex_ratio = np_true_divide (np_sum (map numberOfSons (group_of key df k)))
                        (np_sum (map numberOfDaughters (group_of key df k)))\<rparr>)"
    by (rule ext) (rule group_sums_float[OF h])
  then show ?thesis by (simp only: groupby_sum_def collect_Inr)
qed

lemma unique_df_example: "unique_df example_df = [member_1_ls17]"
  by (simp add: unique_df_def df_small_def example_df_def member_1_ls16_def
      no_data_member_def member_1_ls17_def isna_def)

lemma float_columns_simps:
  "sons_dtype float_columns = Float64" "daughters_dtype float_columns = Float64"
  by (simp_all add: float_columns_def)

lemma party_adf_example: "party_adf float_columns (unique_df example_df) = Inr [inc_row]"
  by (simp add: unique_df_example party_adf_def groupby_sum_float float_columns_simps
      group_keys_def group_of_def member_1_ls17_def np_true_divide_def inc_row_def)

lemma party_pdf_example: "party_pdf float_columns (unique_df example_df) = Inr []"
  by (simp add: party_pdf_def party_adf_example sort_values_desc_def inc_row_def)

lemma party_adf_two_party: "party_adf float_columns two_party_df = Inr [bjp_row, inc_row]"
  by (simp add: party_adf_def groupby_sum_float float_columns_simps group_keys_def
      group_of_def two_party_df_def np_true_divide_def bjp_row_def inc_row_def)

lemma party_pdf_two_party: "party_pdf float_columns two_party_df = Inr [bjp_row]"
  by (simp add: party_pdf_def party_adf_two_party sort_values_desc_def bjp_row_def
      inc_row_def)

text \<open>
  C8, as cell 27 builds the party-wise table. When the aggregation raises, the cell
  raises; with both count columns float64 it does not. Otherwise every party of the
  table has more than 100 children on record and is a group of the aggregation; the
  table has at most ten rows; and when at most ten parties pass, the table holds exactly
  the parties above the threshold. A party at or below the threshold is removed, not
  marked.
\<close>

theorem party_table_threshold:
  "(case party_adf dts udf of
      Inl e \<Rightarrow> party_pdf dts udf = Inl e
    | Inr adf \<Rightarrow>
        (\<exists>pdf. party_pdf dts udf = Inr pdf
           \<and> (\<forall>g\<in>set pdf. 100 < daughters_sum g + sons_sum g \<and> g \<in> set adf)
           \<and> length pdf \<le> 10
           \<and> (length (filter (\<lambda>g. 100 < daughters_sum g + sons_sum g) adf) \<le> 10 \<longrightarrow>
                set pdf = {g \<in> set adf. 100 < daughters_sum g + sons_sum g})))
   \<and> (sons_dtype dts = Float64 \<and> daughters_dtype dts = Float64 \<longrightarrow>
        (\<exists>adf. party_adf dts udf = Inr adf))"
proof (intro conjI impI)
  show "case party_adf dts udf of
      Inl e \<Rightarrow> party_pdf dts udf = Inl e
    | Inr adf \<Rightarrow>
        (\<exists>pdf. party_pdf dts udf = Inr pdf
           \<and> (\<forall>g\<in>set pdf. 100 < daughters_sum g + sons_sum g \<and> g \<in> set adf)
           \<and> length pdf \<le> 10
           \<and> (length (filter (\<lambda>g. 100 < daughters_sum g + sons_sum g) adf) \<le> 10 \<longrightarrow>
                set pdf = {g \<in> set adf. 100 < daughters_sum g + sons_sum g}))"
  proof (cases "party_adf dts udf")
    case (Inl e)
    then show ?thesis by (simp add: party_pdf_def)
  next
    case (Inr adf)
    let ?big = "filter (\<lambda>g. 100 < daughters_sum g + sons_sum g) adf"
    let ?pdf = "take 10 (sort_values_desc ?big)"
    have p: "party_pdf dts udf = Inr ?pdf" by (simp add: party_pdf_def Inr)
    have a: "\<forall>g\<in>set ?pdf. 100 < daughters_sum g + sons_sum g \<and> g \<in> set adf"
    proof
      fix g assume "g \<in> set ?pdf"
      then have "g \<in> set (sort_values_desc ?big)" by (rule in_set_takeD)
      then have "g \<in> set ?big" by (simp only: set_sort_values_desc)
      then show "100 < daughters_sum g + sons_sum g \<and> g \<in> set adf" by simp
    qed
    have l: "length ?pdf \<le> 10" by simp
    have s: "length ?big \<le> 10 \<longrightarrow>
          set ?pdf = {g \<in> set adf. 100 < daughters_sum g + sons_sum g}"
      by (simp add: length_sort_values_desc set_sort_values_desc)
    from p a l s show ?thesis unfolding Inr sum.case by blast
  qed
next
  assume "sons_dtype dts = Float64 \<and> daughters_dtype dts = Float64"
  then show "\<exists>adf. party_adf dts udf = Inr adf"
    by (simp add: party_adf_def groupby_sum_float)
qed

theorem party_table_threshold_witness:
  "party_adf float_columns two_party_df = Inr [bjp_row, inc_row]
   \<and> party_pdf float_columns two_party_df = Inr [bjp_row]
   \<and> 100 < daughters_sum bjp_row + sons_sum bjp_row
   \<and> bjp_row \<in> set [bjp_row, inc_row]
   \<and> inc_row \<noteq> bjp_row"
proof -
  have n: "inc_row \<noteq> bjp_row" by (simp add: inc_row_def bjp_row_def)
  from party_table_threshold[of float_columns two_party_df]
  have "100 < daughters_sum bjp_row + sons_sum bjp_row \<and> bjp_row \<in> set [bjp_row, inc_row]"
    by (simp add: party_adf_two_party party_pdf_two_party)
  with n show ?thesis by (simp add: party_pdf_two_party party_adf_two_party)
qed

text \<open>
  The claim as stated fails: the one party of the example frame, with three children on
  record, is a group of the aggregation and is missing from the table.
\<close>

theorem party_table_drops_small_counterexample:
  "party_adf float_columns (unique_df example_df) = Inr [inc_row]
   \<and> daughters_sum inc_row + sons_sum inc_row = 3
   \<and> party_pdf float_columns (unique_df example_df) = Inr []"
  by (simp add: party_adf_example party_pdf_example) (simp add: inc_row_def)

section \<open>The chi-square cell\<close>

lemma remdups_replicate: "0 < n \<Longrightarrow> remdups (replicate n c) = [c]"
proof (induction n)
  case 0
  then show ?case by simp
next
  case (Suc n)
  then show ?case by (cases n) simp_all
qed

lemma count_list_zip_replicate:
  "count_list (zip xs (replicate (length xs) c)) (r, c) = count_list xs r"
  by (induction xs) auto

lemma crosstab_constant:
  assumes "idx \<noteq> []"
  shows "crosstab idx (replicate (length idx) c)
           = map (\<lambda>n. [n]) (map (count_list idx) (sort (remdups idx)))"
  using assms by (simp add: crosstab_def remdups_replicate count_list_zip_replicate)

lemma chi2_table_eq:
  assumes "pdf \<noteq> []"
  shows "chi2_table pdf
           = map (\<lambda>n. [n])
               (map (count_list (map sons_sum pdf)) (sort (remdups (map sons_sum pdf))))"
proof -
  have "map sons_sum pdf \<noteq> []" using assms by simp
  from crosstab_constant[OF this, of "''numberOfDaughters''"]
  show ?thesis by (simp add: chi2_table_def)
qed

lemma chi2_cell_nonempty:
  assumes "pdf \<noteq> []"
  shows "chi2_cell pdf =
     Inr \<lparr>chi2_and_p = Values 0 1, dof = 0,
          expected = map (\<lambda>c. [Fin (real c)])
            (map (count_list (map sons_sum pdf)) (sort (remdups (map sons_sum pdf))))\<rparr>"
proof -
  let ?cs = "map (count_list (map sons_sum pdf)) (sort (remdups (map sons_sum pdf)))"
  have "length ?cs = length (remdups (map sons_sum pdf))" by simp
  moreover have "remdups (map sons_sum pdf) \<noteq> []" using assms by simp
  ultimately have a: "?cs \<noteq> []" by (metis length_0_conv)
  have b: "0 \<notin> set ?cs" by (auto simp: count_list_0_iff)
  show ?thesis
    unfolding chi2_cell_def chi2_table_eq[OF assms] by (rule single_column[OF a b])
qed

text \<open>
  C10, as cell 24 runs. Whenever the party-wise table has a row, the contingency table
  has one cell per row, the column \<^verbatim>\<open>numberOfDaughters\<close>, and the cell prints
  \<^verbatim>\<open>chi2: 0.0\<close> and \<^verbatim>\<open>p-value: 1.0\<close>: the same for any two such tables, whatever
  their counts. On an empty party-wise table the contingency table is empty and the test
  raises \<^verbatim>\<open>ValueError\<close>.
\<close>

theorem chi2_cell_constant:
  "(pdf \<noteq> [] \<longrightarrow>
      ncols (chi2_table pdf) = 1
      \<and> list_all (\<lambda>row. length row = 1) (chi2_table pdf)
      \<and> chi2_printed (chi2_cell pdf) = Inr (Values 0 1))
   \<and> (pdf \<noteq> [] \<and> pdf' \<noteq> [] \<longrightarrow>
        chi2_printed (chi2_cell pdf) = chi2_printed (chi2_cell pdf'))
   \<and> chi2_table [] = []
   \<and> chi2_printed (chi2_cell []) = Inl ValueError"
proof (intro conjI impI)
  assume h: "pdf \<noteq> []"
  have "map sons_sum pdf \<noteq> []" using h by simp
  then have "sort (remdups (map sons_sum pdf)) \<noteq> []"
    by (metis length_0_conv length_sort remdups_eq_nil_iff)
  then show "ncols (chi2_table pdf) = 1"
    by (cases "sort (remdups (map sons_sum pdf))")
      (simp_all add: chi2_table_eq[OF h] ncols_def)
  show "list_all (\<lambda>row. length row = 1) (chi2_table pdf)"
    by (simp add: chi2_table_eq[OF h] list_all_iff)
  show "chi2_printed (chi2_cell pdf) = Inr (Values 0 1)"
    by (simp add: chi2_cell_nonempty[OF h] chi2_printed_def)
next
  assume "pdf \<noteq> [] \<and> pdf' \<noteq> []"
  then show "chi2_printed (chi2_cell pdf) = chi2_printed (chi2_cell pdf')"
    by (simp add: chi2_cell_nonempty chi2_printed_def)
next
  show "chi2_table [] = []"
    by (simp add: chi2_table_def crosstab_def)
  show "chi2_printed (chi2_cell []) = Inl ValueError"
    by (simp add: chi2_cell_def chi2_table_def crosstab_def chi2_contingency_def
        chi2_printed_def)
qed

theorem chi2_cell_constant_witness:
  "party_pdf float_columns two_party_df = Inr [bjp_row]
   \<and> chi2_table [bjp_row] = [[1]]
   \<and> chi2_printed (chi2_cell [bjp_row]) = Inr (Values 0 1)"
proof -
  have n: "[bjp_row] \<noteq> []" by simp
  have t: "chi2_table [bjp_row] = [[1]]"
    by (simp add: chi2_table_def crosstab_def bjp_row_def)
  from chi2_cell_constant[of "[bjp_row]" "[bjp_row]"] n t party_pdf_two_party
  show ?thesis by simp
qed

text \<open>
  The claim as stated fails on a corpus where no party has more than 100 children on
  record: the party-wise table is empty, so is the contingency table, and the test
  raises instead of printing 0.0 and 1.0.
\<close>

theorem chi2_cell_empty_counterexample:
  "party_pdf float_columns (unique_df example_df) = Inr []
   \<and> chi2_table [] = []
   \<and> chi2_printed (chi2_cell []) = Inl ValueError"
  by (simp add: party_pdf_example chi2_cell_def chi2_table_def crosstab_def
      chi2_contingency_def chi2_printed_def)

section \<open>Number words and digit strings\<close>

lemma is_space_lower_char: "is_space (lower_char c) = is_space c"
  by (simp add: is_space_def lower_char_def)

lemma lower_dropWhile: "lower (dropWhile is_space s) = dropWhile is_space (lower s)"
  by (induction s) (simp_all add: lower_def is_space_lower_char)

lemma lower_trim: "lower (trim s) = trim (lower s)"
proof -
  have r: "\<And>t. lower (rev t) = rev (lower t)" by (simp add: lower_def rev_map)
  show ?thesis by (simp add: trim_def r lower_dropWhile)
qed

lemma normalize_text: "normalize (Text s) = normalize (Text (lower s))"
proof -
  have "lower (lower s) = lower s"
    by (induction s) (auto simp: lower_def lower_char_def)
  then show ?thesis by (simp add: normalize_def lower_trim)
qed

lemma words_digits:
  assumes "n \<le> 10"
  shows "normalize (Text (number_words ! n)) = Inr (Some n)
       \<and> normalize (Text (decimal n)) = Inr (Some n)"
proof -
  have "list_all
          (\<lambda>k. normalize (Text (number_words ! k)) = Inr (Some k)
               \<and> normalize (Text (decimal k)) = Inr (Some k))
          [0..<11]"
    by (simp add: upt_rec normalize_def trim_def is_space_def lower_def lower_char_def
        number_words_def is_digit_def parse_digits_def digit_value_def)
  then have "\<forall>k\<in>set [0..<11]. normalize (Text (number_words ! k)) = Inr (Some k)
               \<and> normalize (Text (decimal k)) = Inr (Some k)"
    by (simp only: list_all_iff)
  moreover have "n \<in> set [0..<11]" using assms by simp
  ultimately show ?thesis by (rule bspec)
qed

text \<open>
  C9: a string that is, up to letter case, the word of a number from zero to ten
  normalises to that number, and so does the number's digit string; an absent value
  normalises to \<open>None\<close>, which is not what \<^verbatim>\<open>"0"\<close> normalises to.
\<close>

theorem normalize_words_and_digits:
  "(n \<le> 10 \<and> lower s = number_words ! n \<longrightarrow>
      normalize (Text s) = Inr (Some n) \<and> normalize (Text (decimal n)) = Inr (Some n))
   \<and> normalize Absent = Inr None
   \<and> normalize (Text ''0'') = Inr (Some 0)
   \<and> normalize Absent \<noteq> normalize (Text ''0'')"
proof (intro conjI impI)
  assume h: "n \<le> 10 \<and> lower s = number_words ! n"
  then show "normalize (Text s) = Inr (Some n)"
    using words_digits[of n] normalize_text[of s] by simp
  from h show "normalize (Text (decimal n)) = Inr (Some n)"
    using words_digits[of n] by simp
next
  show "normalize Absent = Inr None" by (simp add: normalize_def)
  show z: "normalize (Text ''0'') = Inr (Some 0)"
    using words_digits[of 0] by simp
  show "normalize Absent \<noteq> normalize (Text ''0'')"
    by (simp add: z) (simp add: normalize_def)
qed

theorem normalize_words_and_digits_witness:
  "lower ''Two'' = number_words ! 2
   \<and> normalize (Text ''Two'') = Inr (Some 2) \<and> normalize (Text ''2'') = Inr (Some 2)"
proof -
  have l: "lower ''Two'' = number_words ! 2"
    by (simp add: lower_def lower_char_def number_words_def)
  have d: "decimal 2 = ''2''" by simp
  from normalize_words_and_digits[of 2 "''Two''"] l d show ?thesis by simp
qed

section \<open>The example frame, cell by cell\<close>

lemma example_unique_ratio:
  "agg_sex_ratio float_columns (unique_df example_df) = Inr (Fin 2)"
  "calculate_ratio float_columns (unique_df example_df) = Inr (Fin 2)"
  by (simp_all add: unique_df_example agg_float calculate_ratio_eq lacks_def
      column_total_def isna_def count_of_def member_1_ls17_def)

lemma example_prop_daughter_mean:
  "prop_daughter_mean (unique_df example_df) = Fin (1 / 3)"
  by (simp add: unique_df_example prop_daughter_mean_def df_kids_def total_kids_def
      nan_add_def gt_zero_def prop_daughter_def series_div_def np_true_divide_def
      series_mean_def mean_of_def member_1_ls17_def)

lemma example_total_kids_mean:
  "total_kids_mean (unique_df example_df) = Fin 3"
  by (simp add: unique_df_example total_kids_mean_def total_kids_def nan_add_def
      to_float_def series_mean_def mean_of_def member_1_ls17_def)

lemma example_ls_table:
  "ls_table float_columns example_df =
     Inr [\<lparr>group_key = ''16'', sons_sum = 2, daughters_sum = 1, sex_ratio = Fin 2\<rparr>,
          \<lparr>group_key = ''17'', sons_sum = 2, daughters_sum = 1, sex_ratio = Fin 2\<rparr>]"
  by (simp add: ls_table_def groupby_sum_float float_columns_simps group_keys_def
      group_of_def example_df_def member_1_ls16_def no_data_member_def member_1_ls17_def
      np_true_divide_def)

lemma example_dtypes:
  "dtypes_of example_df = float_columns"
  "dtypes_of (rev example_df) = float_columns"
  "dtypes_of [member_1_ls16, member_1_ls17] = float_columns"
  "dtypes_of two_party_df = float_columns"
  "dtypes_of only_sons_df = float_columns"
  "dtypes_of half_missing_df = float_columns"
  by (simp_all add: dtypes_of_def column_dtype_def float_columns_def example_df_def
      member_1_ls16_def no_data_member_def member_1_ls17_def two_party_df_def
      only_sons_df_def half_missing_df_def)

lemma example_unique_df_two_party: "unique_df two_party_df = two_party_df"
  by (simp add: unique_df_def df_small_def two_party_df_def isna_def)

lemma example_np_std:
  "np_std [Fin 1, Fin 3] = Fin 1"
  "np_std [Fin 1, PosInf] = NaN"
  "np_std [] = NaN"
  by (simp_all add: np_std_def mean_of_def power2_eq_square)

end
